theory Spec2Isabelle
  imports Complex_Main
begin

section \<open>Hand landmark metrics of CameraFeed.tsx\<close>

text \<open>
  The component \<^verbatim>\<open>CameraFeed.tsx\<close> exists in two revisions. Both share
  \<^verbatim>\<open>FINGER_JOINTS\<close>, \<^verbatim>\<open>FINGER_TIPS\<close>, \<^verbatim>\<open>calculateAngle\<close> and
  \<^verbatim>\<open>processAngles\<close> word for word. They differ in
  \<^verbatim>\<open>processFingerPairAngles\<close>, in the gap expression of \<^verbatim>\<open>onResults\<close> and in
  the side-bend functions, which only the second revision has. Where the two
  revisions differ, the first one (lines 1-315) carries the suffix \<open>_v1\<close> and
  the second one (lines 316-628, the one whose props \<^verbatim>\<open>App\<close> passes) the
  suffix \<open>_v2\<close>.

  A JavaScript \<^verbatim>\<open>number\<close> is modelled as a real: rounding, infinities and NaN
  of IEEE doubles are outside the model. Reading a property of \<^verbatim>\<open>undefined\<close>
  raises a \<^verbatim>\<open>TypeError\<close>; every function that reads landmarks returns
  \<open>error + 'a\<close>, with \<open>Inl\<close> for the exception.
\<close>

subsection \<open>Errors\<close>

datatype error = TypeError

definition bindE :: "error + 'a \<Rightarrow> ('a \<Rightarrow> error + 'b) \<Rightarrow> error + 'b" where
  "bindE m f = (case m of Inl e \<Rightarrow> Inl e | Inr v \<Rightarrow> f v)"

text \<open>\<^verbatim>\<open>xs.forEach(cb)\<close> for a callback that updates an accumulator and may throw.\<close>

fun forEachE :: "('s \<Rightarrow> 'a \<Rightarrow> error + 's) \<Rightarrow> 'a list \<Rightarrow> 's \<Rightarrow> error + 's" where
  "forEachE cb [] s = Inr s"
| "forEachE cb (v # vs) s = bindE (cb s v) (forEachE cb vs)"

subsection \<open>Data (types/HandData.ts)\<close>

record HandLandmark =
  x :: real
  y :: real
  z :: real

text \<open>
  An array read \<^verbatim>\<open>lm[i]\<close>: the element, or \<^verbatim>\<open>undefined\<close> (\<open>None\<close>) beyond the
  end. A landmark is an object, so it is truthy whatever its coordinates;
  only \<^verbatim>\<open>undefined\<close> is falsy.
\<close>

definition at_index :: "'a list \<Rightarrow> nat \<Rightarrow> 'a option" where
  "at_index lm i = (if i < length lm then Some (lm ! i) else None)"

definition truthy :: "'a option \<Rightarrow> bool" where
  "truthy v = (v \<noteq> None)"

text \<open>Passing a value on to code that reads its properties.\<close>

definition deref :: "'a option \<Rightarrow> error + 'a" where
  "deref v = (case v of None \<Rightarrow> Inl TypeError | Some p \<Rightarrow> Inr p)"

subsection \<open>Math\<close>

text \<open>
  \<^verbatim>\<open>Math.atan2(dy, dx)\<close> after ECMA-262: the angle of the point \<open>(dx, dy)\<close> in
  \<open>(-\<pi>, \<pi>]\<close>, and \<open>0\<close> at the origin.
\<close>

definition atan2 :: "real \<Rightarrow> real \<Rightarrow> real" where
  "atan2 dy dx =
     (if 0 < dx then arctan (dy / dx)
      else if dx < 0 then (if 0 \<le> dy then arctan (dy / dx) + pi else arctan (dy / dx) - pi)
      else if 0 < dy then pi / 2
      else if dy < 0 then - (pi / 2)
      else 0)"

definition hypot :: "real \<Rightarrow> real \<Rightarrow> real" where
  "hypot dx dy = sqrt (dx * dx + dy * dy)"

subsection \<open>Constants\<close>

definition FINGER_JOINTS :: "(string \<times> nat \<times> nat \<times> nat) list" where
  "FINGER_JOINTS =
     [(''Thumb'', 1, 2, 4),
      (''Index'', 5, 6, 8),
      (''Middle'', 9, 10, 12),
      (''Ring'', 13, 14, 16),
      (''Pinky'', 17, 18, 20)]"

definition FINGER_TIPS :: "nat list" where
  "FINGER_TIPS = [4, 8, 12, 16, 20]"

subsection \<open>Bend angle\<close>

definition calculateAngle :: "HandLandmark \<Rightarrow> HandLandmark \<Rightarrow> HandLandmark \<Rightarrow> real" where
  "calculateAngle a b c =
     (let rad = atan2 (y c - y b) (x c - x b) - atan2 (y a - y b) (x a - x b);
          deg = \<bar>rad * (180 / pi)\<bar>
      in if deg > 180 then 360 - deg else deg)"

text \<open>
  The bend angle in the words of the specification: the polar angles of the
  vectors from \<open>b\<close> to \<open>a\<close> and from \<open>b\<close> to \<open>c\<close>, their absolute difference
  in degrees, reflected at 180.
\<close>

definition polarAngle :: "HandLandmark \<Rightarrow> HandLandmark \<Rightarrow> real" where
  "polarAngle b p = atan2 (y p - y b) (x p - x b)"

definition bendAngleSpec :: "HandLandmark \<Rightarrow> HandLandmark \<Rightarrow> HandLandmark \<Rightarrow> real" where
  "bendAngleSpec a b c =
     (let d = \<bar>polarAngle b a - polarAngle b c\<bar> * 180 / pi
      in if d > 180 then 360 - d else d)"

subsection \<open>processAngles (both revisions)\<close>

text \<open>
  A \<^verbatim>\<open>Record<string, number>\<close> and the \<^verbatim>\<open>FingerAngles\<close> object, which the
  code fills by key, are maps from key to number. The callback of
  \<^verbatim>\<open>Object.keys(FINGER_JOINTS).forEach\<close> looks the triple up and assigns the
  finger's angle when all three landmarks are truthy.
\<close>

definition processAngles_cb ::
    "HandLandmark list \<Rightarrow> (string \<rightharpoonup> real) \<Rightarrow> string \<Rightarrow> error + (string \<rightharpoonup> real)" where
  "processAngles_cb lm angles finger =
     bindE (deref (map_of FINGER_JOINTS finger)) (\<lambda>(a, b, c).
       if truthy (at_index lm a) \<and> truthy (at_index lm b) \<and> truthy (at_index lm c)
       then bindE (deref (at_index lm a)) (\<lambda>pa.
            bindE (deref (at_index lm b)) (\<lambda>pb.
            bindE (deref (at_index lm c)) (\<lambda>pc.
              Inr (angles(finger \<mapsto> calculateAngle pa pb pc)))))
       else Inr angles)"

definition processAngles :: "HandLandmark list \<Rightarrow> error + (string \<rightharpoonup> real)" where
  "processAngles lm =
     forEachE (processAngles_cb lm) (map fst FINGER_JOINTS)
       [''Thumb'' \<mapsto> 0, ''Index'' \<mapsto> 0, ''Middle'' \<mapsto> 0, ''Ring'' \<mapsto> 0, ''Pinky'' \<mapsto> 0]"

subsection \<open>Side bend (second revision)\<close>

definition calculateSideBend :: "HandLandmark \<Rightarrow> HandLandmark \<Rightarrow> HandLandmark \<Rightarrow> real" where
  "calculateSideBend a b c =
     (let rad = atan2 (x c - x b) (z c - z b) - atan2 (x a - x b) (z a - z b);
          deg = \<bar>rad * (180 / pi)\<bar>
      in if deg > 180 then 360 - deg else deg)"

definition processSideAngles_cb ::
    "HandLandmark list \<Rightarrow> (string \<rightharpoonup> real) \<Rightarrow> string \<Rightarrow> error + (string \<rightharpoonup> real)" where
  "processSideAngles_cb lm angles finger =
     bindE (deref (map_of FINGER_JOINTS finger)) (\<lambda>(a, b, c).
       if truthy (at_index lm a) \<and> truthy (at_index lm b) \<and> truthy (at_index lm c)
       then bindE (deref (at_index lm a)) (\<lambda>pa.
            bindE (deref (at_index lm b)) (\<lambda>pb.
            bindE (deref (at_index lm c)) (\<lambda>pc.
              Inr (angles(finger \<mapsto> calculateSideBend pa pb pc)))))
       else Inr angles)"

definition processSideAngles :: "HandLandmark list \<Rightarrow> error + (string \<rightharpoonup> real)" where
  "processSideAngles lm =
     forEachE (processSideAngles_cb lm) (map fst FINGER_JOINTS)
       [''Thumb'' \<mapsto> 0, ''Index'' \<mapsto> 0, ''Middle'' \<mapsto> 0, ''Ring'' \<mapsto> 0, ''Pinky'' \<mapsto> 0]"

text \<open>
  The side bend in the words of the specification: the bend-angle formula on
  the points seen in the (z, x) plane, that is with \<open>z\<close> in the place of
  \<open>x\<close> and \<open>x\<close> in the place of \<open>y\<close>.
\<close>

definition zxPlane :: "HandLandmark \<Rightarrow> HandLandmark" where
  "zxPlane p = \<lparr>x = z p, y = x p, z = y p\<rparr>"

subsection \<open>Fingertip pairs\<close>

text \<open>A number inside a template string: its decimal digits.\<close>

fun showNat :: "nat \<Rightarrow> string" where
  "showNat n =
     (if n < 10 then [''0123456789'' ! n]
      else showNat (n div 10) @ [''0123456789'' ! (n mod 10)])"

declare showNat.simps [simp del]

definition pairKey :: "nat \<Rightarrow> string" where
  "pairKey i = showNat (FINGER_TIPS ! i) @ ''_'' @ showNat (FINGER_TIPS ! (i + 1))"

text \<open>
  The body of the \<^verbatim>\<open>for\<close> loop at index \<open>i\<close>. The first revision reads
  \<^verbatim>\<open>tip2.x\<close> and \<^verbatim>\<open>tip1.x\<close> at once; the second one tests both tips first.
\<close>

definition pairBody_v1 ::
    "HandLandmark list \<Rightarrow> (string \<rightharpoonup> real) \<Rightarrow> nat \<Rightarrow> error + (string \<rightharpoonup> real)" where
  "pairBody_v1 lm angles i =
     (let tip1 = at_index lm (FINGER_TIPS ! i);
          tip2 = at_index lm (FINGER_TIPS ! (i + 1))
      in bindE (deref tip2) (\<lambda>t2.
         bindE (deref tip1) (\<lambda>t1.
           let dx = x t2 - x t1;
               dy = y t2 - y t1;
               angle = (atan2 dy dx * 180) / pi
           in Inr (angles(pairKey i \<mapsto> \<bar>angle\<bar>)))))"

definition processFingerPairAngles_v1 :: "HandLandmark list \<Rightarrow> error + (string \<rightharpoonup> real)" where
  "processFingerPairAngles_v1 lm =
     forEachE (pairBody_v1 lm) [0 ..< length FINGER_TIPS - 1] Map.empty"

definition pairBody_v2 ::
    "HandLandmark list \<Rightarrow> (string \<rightharpoonup> real) \<Rightarrow> nat \<Rightarrow> error + (string \<rightharpoonup> real)" where
  "pairBody_v2 lm angles i =
     (let tip1 = at_index lm (FINGER_TIPS ! i);
          tip2 = at_index lm (FINGER_TIPS ! (i + 1))
      in if truthy tip1 \<and> truthy tip2
         then bindE (deref tip2) (\<lambda>t2.
              bindE (deref tip1) (\<lambda>t1.
                let dx = x t2 - x t1;
                    dy = y t2 - y t1;
                    angle = (atan2 dy dx * 180) / pi
                in Inr (angles(pairKey i \<mapsto> \<bar>angle\<bar>))))
         else Inr angles)"

definition processFingerPairAngles_v2 :: "HandLandmark list \<Rightarrow> error + (string \<rightharpoonup> real)" where
  "processFingerPairAngles_v2 lm =
     forEachE (pairBody_v2 lm) [0 ..< length FINGER_TIPS - 1] Map.empty"

subsection \<open>Thumb-index gap (inside onResults)\<close>

definition gap_v1 :: "HandLandmark list \<Rightarrow> error + real" where
  "gap_v1 lm =
     (let thumbTip = at_index lm 4;
          indexTip = at_index lm 8
      in bindE (deref indexTip) (\<lambda>i.
         bindE (deref thumbTip) (\<lambda>t.
           Inr (hypot (x i - x t) (y i - y t)))))"

definition gap_v2 :: "HandLandmark list \<Rightarrow> error + real" where
  "gap_v2 lm =
     (let thumbTip = at_index lm 4;
          indexTip = at_index lm 8
      in if truthy thumbTip \<and> truthy indexTip
         then bindE (deref indexTip) (\<lambda>i.
              bindE (deref thumbTip) (\<lambda>t.
                Inr (hypot (x i - x t) (y i - y t))))
         else Inr 0)"

subsection \<open>Frame assembly: onResults\<close>

text \<open>
  A landmark as the detector reports it: \<^verbatim>\<open>z\<close> may be absent, and the code
  reads it as \<^verbatim>\<open>l.z ?? 0\<close>.
\<close>

record NormalizedLandmark =
  raw_x :: real
  raw_y :: real
  raw_z :: "real option"

definition toHandLandmark :: "NormalizedLandmark \<Rightarrow> HandLandmark" where
  "toHandLandmark l =
     \<lparr>x = raw_x l, y = raw_y l, z = (case raw_z l of None \<Rightarrow> 0 | Some v \<Rightarrow> v)\<rparr>"

record HandData =
  landmarks :: "HandLandmark list"
  fingerAngles :: "string \<rightharpoonup> real"
  fingerPairAngles :: "(string \<rightharpoonup> real) option"
  handedness :: string
  gap :: real
  timestamp :: int

text \<open>
  The detector's result: either array may be \<^verbatim>\<open>undefined\<close>; an entry of
  \<^verbatim>\<open>multiHandedness\<close> is given by its \<^verbatim>\<open>label\<close>.
\<close>

record Results =
  multiHandLandmarks :: "NormalizedLandmark list list option"
  multiHandedness :: "string list option"

text \<open>
  The callback of \<^verbatim>\<open>results.multiHandLandmarks.forEach((landmarks, i) => ...)\<close>.
  \<open>now\<close> is the value of \<^verbatim>\<open>Date.now()\<close>. The drawing calls write to the canvas
  only and are left out.
\<close>

definition handCallback_v1 ::
    "int \<Rightarrow> string list \<Rightarrow> HandData list \<Rightarrow> NormalizedLandmark list \<times> nat
      \<Rightarrow> error + HandData list" where
  "handCallback_v1 now labels hands = (\<lambda>(raw, i).
     bindE (deref (at_index labels i)) (\<lambda>label.
       let lm = map toHandLandmark raw
       in bindE (processAngles lm) (\<lambda>fa.
          bindE (processFingerPairAngles_v1 lm) (\<lambda>fpa.
          bindE (gap_v1 lm) (\<lambda>g.
            Inr (hands @ [\<lparr>landmarks = lm, fingerAngles = fa, fingerPairAngles = Some fpa,
                           handedness = label, gap = g, timestamp = now\<rparr>]))))))"

definition handCallback_v2 ::
    "int \<Rightarrow> string list \<Rightarrow> HandData list \<Rightarrow> NormalizedLandmark list \<times> nat
      \<Rightarrow> error + HandData list" where
  "handCallback_v2 now labels hands = (\<lambda>(raw, i).
     bindE (deref (at_index labels i)) (\<lambda>label.
       let lm = map toHandLandmark raw
       in bindE (processAngles lm) (\<lambda>fa.
          bindE (processFingerPairAngles_v2 lm) (\<lambda>fpa.
          bindE (processSideAngles lm) (\<lambda>sideBendAngles.
          bindE (gap_v2 lm) (\<lambda>g.
            Inr (hands @ [\<lparr>landmarks = lm, fingerAngles = fa, fingerPairAngles = Some fpa,
                           handedness = label, gap = g, timestamp = now\<rparr>])))))))"

text \<open>
  \<open>ready\<close> stands for the canvas, its 2D context and the video element being
  there; without them \<^verbatim>\<open>onResults\<close> returns before it calls \<^verbatim>\<open>onHandData\<close>
  (the result \<open>None\<close>). Otherwise the result is the list handed to
  \<^verbatim>\<open>onHandData\<close>.
\<close>

definition onResults_v1 :: "int \<Rightarrow> bool \<Rightarrow> Results \<Rightarrow> error + HandData list option" where
  "onResults_v1 now ready results =
     (if \<not> ready then Inr None
      else bindE
        (case (multiHandLandmarks results, multiHandedness results) of
           (Some hs, Some labels) \<Rightarrow>
             forEachE (handCallback_v1 now labels) (zip hs [0 ..< length hs]) []
         | _ \<Rightarrow> Inr [])
        (\<lambda>hands. Inr (Some hands)))"

definition onResults_v2 :: "int \<Rightarrow> bool \<Rightarrow> Results \<Rightarrow> error + HandData list option" where
  "onResults_v2 now ready results =
     (if \<not> ready then Inr None
      else bindE
        (case (multiHandLandmarks results, multiHandedness results) of
           (Some hs, Some labels) \<Rightarrow>
             forEachE (handCallback_v2 now labels) (zip hs [0 ..< length hs]) []
         | _ \<Rightarrow> Inr [])
        (\<lambda>hands. Inr (Some hands)))"

subsection \<open>Notions used in the statements and proofs\<close>

text \<open>
  One conditional assignment \<^verbatim>\<open>if (P(v)) s[key(v)] = val(v)\<close>: the shape of every
  loop body of the guarded functions.
\<close>

definition assignIf ::
    "('v \<Rightarrow> bool) \<Rightarrow> ('v \<Rightarrow> 'k) \<Rightarrow> ('v \<Rightarrow> 'a) \<Rightarrow> ('k \<rightharpoonup> 'a) \<Rightarrow> 'v \<Rightarrow> ('k \<rightharpoonup> 'a)" where
  "assignIf P key val s v = (if P v then s(key v \<mapsto> val v) else s)"

text \<open>All three joints of a finger lie inside the landmark list.\<close>

definition jointsPresent :: "'a list \<Rightarrow> string \<Rightarrow> bool" where
  "jointsPresent lm finger =
     (case map_of FINGER_JOINTS finger of
        None \<Rightarrow> False
      | Some (a, b, c) \<Rightarrow> a < length lm \<and> b < length lm \<and> c < length lm)"

definition jointValue ::
    "(HandLandmark \<Rightarrow> HandLandmark \<Rightarrow> HandLandmark \<Rightarrow> real) \<Rightarrow> HandLandmark list \<Rightarrow> string \<Rightarrow> real" where
  "jointValue calc lm finger =
     (case map_of FINGER_JOINTS finger of
        None \<Rightarrow> 0
      | Some (a, b, c) \<Rightarrow> calc (lm ! a) (lm ! b) (lm ! c))"

definition zeroAngles :: "string \<rightharpoonup> real" where
  "zeroAngles = [''Thumb'' \<mapsto> 0, ''Index'' \<mapsto> 0, ''Middle'' \<mapsto> 0, ''Ring'' \<mapsto> 0, ''Pinky'' \<mapsto> 0]"

definition tipsPresent :: "'a list \<Rightarrow> nat \<Rightarrow> bool" where
  "tipsPresent lm i = (FINGER_TIPS ! i < length lm \<and> FINGER_TIPS ! (i + 1) < length lm)"

definition pairValue :: "HandLandmark list \<Rightarrow> nat \<Rightarrow> real" where
  "pairValue lm i =
     \<bar>atan2 (y (lm ! (FINGER_TIPS ! (i + 1))) - y (lm ! (FINGER_TIPS ! i)))
            (x (lm ! (FINGER_TIPS ! (i + 1))) - x (lm ! (FINGER_TIPS ! i))) * 180 / pi\<bar>"

text \<open>The maps the guarded loops compute, in closed form.\<close>

definition anglesOf ::
    "(HandLandmark \<Rightarrow> HandLandmark \<Rightarrow> HandLandmark \<Rightarrow> real) \<Rightarrow> HandLandmark list
      \<Rightarrow> (string \<rightharpoonup> real)" where
  "anglesOf calc lm =
     foldl (assignIf (jointsPresent lm) (\<lambda>f. f) (jointValue calc lm)) zeroAngles
       (map fst FINGER_JOINTS)"

definition pairAnglesOf :: "HandLandmark list \<Rightarrow> (string \<rightharpoonup> real)" where
  "pairAnglesOf lm =
     foldl (assignIf (tipsPresent lm) pairKey (pairValue lm)) Map.empty
       [0 ..< length FINGER_TIPS - 1]"

subsection \<open>Sample inputs\<close>

definition origin :: HandLandmark where
  "origin = \<lparr>x = 0, y = 0, z = 0\<rparr>"

definition rawOrigin :: NormalizedLandmark where
  "rawOrigin = \<lparr>raw_x = 0, raw_y = 0, raw_z = None\<rparr>"

definition zeroTipHand :: "HandLandmark list" where
  "zeroTipHand = (replicate 21 origin)[5 := \<lparr>x = 2, y = 0, z = 0\<rparr>, 6 := \<lparr>x = 1, y = 0, z = 0\<rparr>]"

section \<open>Properties\<close>

subsection \<open>Errors, array reads and loops\<close>

lemma bindE_Inl [simp]: "bindE (Inl e) f = Inl e"
  by (simp add: bindE_def)

lemma bindE_Inr [simp]: "bindE (Inr v) f = f v"
  by (simp add: bindE_def)

lemma deref_Some [simp]: "deref (Some p) = Inr p"
  by (simp add: deref_def)

lemma deref_None [simp]: "deref None = Inl TypeError"
  by (simp add: deref_def)

lemma truthy_at_index [simp]: "truthy (at_index lm i) = (i < length lm)"
  by (simp add: truthy_def at_index_def)

lemma at_index_in: "i < length lm \<Longrightarrow> at_index lm i = Some (lm ! i)"
  by (simp add: at_index_def)

lemma at_index_out: "\<not> i < length lm \<Longrightarrow> at_index lm i = None"
  by (simp add: at_index_def)

lemma forEachE_total:
  "(\<And>s v. v \<in> set vs \<Longrightarrow> cb s v = Inr (g s v)) \<Longrightarrow> forEachE cb vs s = Inr (foldl g s vs)"
  by (induction vs arbitrary: s) simp_all

lemma foldl_assignIf_dom:
  "dom (foldl (assignIf P key val) s vs) = dom s \<union> key ` {v \<in> set vs. P v}"
  by (induction vs arbitrary: s) (auto simp: assignIf_def)

lemma foldl_assignIf_other:
  "k \<notin> key ` {v \<in> set vs. P v} \<Longrightarrow> foldl (assignIf P key val) s vs k = s k"
proof (induction vs arbitrary: s)
  case Nil
  then show ?case by simp
next
  case (Cons w ws)
  have tl: "k \<notin> key ` {v \<in> set ws. P v}" using Cons.prems by auto
  have hd: "P w \<Longrightarrow> key w \<noteq> k" using Cons.prems by auto
  have "foldl (assignIf P key val) (assignIf P key val s w) ws k = assignIf P key val s w k"
    by (rule Cons.IH [OF tl])
  also have "\<dots> = s k" using hd by (auto simp: assignIf_def)
  finally show ?case by simp
qed

lemma foldl_assignIf_hit:
  "inj_on key (set vs) \<Longrightarrow> v \<in> set vs \<Longrightarrow> P v \<Longrightarrow>
   foldl (assignIf P key val) s vs (key v) = Some (val v)"
proof (induction vs arbitrary: s)
  case Nil
  then show ?case by simp
next
  case (Cons w ws)
  have inj: "inj_on key (set ws)" using Cons.prems(1) by (simp add: inj_on_def)
  show ?case
  proof (cases "v \<in> set ws")
    case True
    then show ?thesis using Cons.IH [OF inj True Cons.prems(3)] by simp
  next
    case False
    then have vw: "v = w" using Cons.prems(2) by simp
    have "key v \<notin> key ` {u \<in> set ws. P u}"
    proof
      assume "key v \<in> key ` {u \<in> set ws. P u}"
      then obtain u where u: "u \<in> set ws" "key u = key v" by auto
      then have "u = v" using Cons.prems(1) vw by (auto simp: inj_on_def)
      then show False using u(1) False by simp
    qed
    then have "foldl (assignIf P key val) (assignIf P key val s w) ws (key v)
        = assignIf P key val s w (key v)"
      by (rule foldl_assignIf_other)
    also have "\<dots> = Some (val v)" using vw Cons.prems(3) by (simp add: assignIf_def)
    finally show ?thesis by simp
  qed
qed

subsection \<open>The range of atan2\<close>

lemma atan2_gt_minus_pi: "- pi < atan2 dy dx"
proof -
  have a: "- (pi / 2) < arctan (dy / dx)" by (rule arctan_lbound)
  have p: "0 < pi" by (rule pi_gt_zero)
  consider "0 < dx" | "dx < 0" "0 \<le> dy" | "dx < 0" "dy < 0" | "dx = 0"
    by linarith
  then show ?thesis
  proof cases
    case 1
    then have "atan2 dy dx = arctan (dy / dx)" by (simp add: atan2_def)
    then show ?thesis using a p by linarith
  next
    case 2
    then have "atan2 dy dx = arctan (dy / dx) + pi" by (simp add: atan2_def)
    then show ?thesis using a p by linarith
  next
    case 3
    then have "0 < dy / dx" by (simp add: divide_neg_neg)
    then have "0 < arctan (dy / dx)" by simp
    moreover have "atan2 dy dx = arctan (dy / dx) - pi" using 3 by (simp add: atan2_def)
    ultimately show ?thesis by linarith
  next
    case 4
    then have "atan2 dy dx = pi / 2 \<or> atan2 dy dx = - (pi / 2) \<or> atan2 dy dx = 0"
      by (simp add: atan2_def)
    then show ?thesis using p by linarith
  qed
qed

lemma atan2_le_pi: "atan2 dy dx \<le> pi"
proof -
  have a: "arctan (dy / dx) < pi / 2" by (rule arctan_ubound)
  have p: "0 < pi" by (rule pi_gt_zero)
  consider "0 < dx" | "dx < 0" "0 \<le> dy" | "dx < 0" "dy < 0" | "dx = 0"
    by linarith
  then show ?thesis
  proof cases
    case 1
    then have "atan2 dy dx = arctan (dy / dx)" by (simp add: atan2_def)
    then show ?thesis using a p by linarith
  next
    case 2
    then have "dy / dx \<le> 0" by (simp add: divide_nonneg_neg)
    then have "arctan (dy / dx) \<le> 0" by simp
    moreover have "atan2 dy dx = arctan (dy / dx) + pi" using 2 by (simp add: atan2_def)
    ultimately show ?thesis by linarith
  next
    case 3
    then have "atan2 dy dx = arctan (dy / dx) - pi" by (simp add: atan2_def)
    then show ?thesis using a p by linarith
  next
    case 4
    then have "atan2 dy dx = pi / 2 \<or> atan2 dy dx = - (pi / 2) \<or> atan2 dy dx = 0"
      by (simp add: atan2_def)
    then show ?thesis using p by linarith
  qed
qed

lemma calculateAngle_range: "0 \<le> calculateAngle a b c \<and> calculateAngle a b c \<le> 180"
proof -
  define s where "s = atan2 (y c - y b) (x c - x b)"
  define t where "t = atan2 (y a - y b) (x a - x b)"
  define k :: real where "k = 180 / pi"
  have kpos: "0 \<le> k" by (simp add: k_def)
  have kpi: "(2 * pi) * k = 360" by (simp add: k_def)
  have "- pi < s" "s \<le> pi" "- pi < t" "t \<le> pi"
    by (simp_all add: s_def t_def atan2_gt_minus_pi atan2_le_pi)
  then have "\<bar>s - t\<bar> \<le> 2 * pi" by linarith
  then have "\<bar>s - t\<bar> * k \<le> (2 * pi) * k" using kpos by (rule mult_right_mono)
  then have "\<bar>s - t\<bar> * k \<le> 360" using kpi by linarith
  moreover have "\<bar>(s - t) * k\<bar> = \<bar>s - t\<bar> * k" using kpos by (simp add: abs_mult)
  ultimately have le: "\<bar>(s - t) * k\<bar> \<le> 360" by linarith
  have eq: "calculateAngle a b c =
      (if \<bar>(s - t) * k\<bar> > 180 then 360 - \<bar>(s - t) * k\<bar> else \<bar>(s - t) * k\<bar>)"
    by (simp add: calculateAngle_def Let_def s_def t_def k_def)
  show ?thesis using le unfolding eq by auto
qed

lemma calculateAngle_coincident: "calculateAngle a a a = 0"
  by (simp add: calculateAngle_def atan2_def)

lemma calculateAngle_spec: "calculateAngle a b c = bendAngleSpec a b c"
proof -
  define s where "s = polarAngle b c"
  define t where "t = polarAngle b a"
  have k: "\<bar>180 / pi\<bar> = 180 / pi" by simp
  have "\<bar>(s - t) * (180 / pi)\<bar> = \<bar>s - t\<bar> * \<bar>180 / pi\<bar>" by (rule abs_mult)
  also have "\<dots> = \<bar>t - s\<bar> * (180 / pi)" unfolding k by (simp only: abs_minus_commute)
  also have "\<dots> = \<bar>t - s\<bar> * 180 / pi" by simp
  finally have "\<bar>(s - t) * (180 / pi)\<bar> = \<bar>t - s\<bar> * 180 / pi" .
  then show ?thesis
    unfolding calculateAngle_def bendAngleSpec_def Let_def
    unfolding polarAngle_def [symmetric] s_def [symmetric] t_def [symmetric]
    by (simp only:)
qed

subsection \<open>processAngles in closed form\<close>

lemma FINGER_JOINTS_keys:
  "map fst FINGER_JOINTS = [''Thumb'', ''Index'', ''Middle'', ''Ring'', ''Pinky'']"
  by (simp add: FINGER_JOINTS_def)

lemma FINGER_JOINTS_map_of:
  "(finger, a, b, c) \<in> set FINGER_JOINTS \<Longrightarrow> map_of FINGER_JOINTS finger = Some (a, b, c)"
  by (rule map_of_is_SomeI) (simp_all add: FINGER_JOINTS_keys)

lemma FINGER_JOINTS_key_in:
  "finger \<in> set (map fst FINGER_JOINTS) \<Longrightarrow> \<exists>t. map_of FINGER_JOINTS finger = Some t"
  by (metis map_of_eq_None_iff not_None_eq set_map)

lemma processAngles_cb_eq:
  assumes "finger \<in> set (map fst FINGER_JOINTS)"
  shows "processAngles_cb lm angles finger =
           Inr (assignIf (jointsPresent lm) (\<lambda>f. f) (jointValue calculateAngle lm) angles finger)"
proof -
  obtain a b c where t: "map_of FINGER_JOINTS finger = Some (a, b, c)"
    using FINGER_JOINTS_key_in [OF assms] by (metis prod_cases3)
  show ?thesis
    by (simp add: processAngles_cb_def t assignIf_def jointsPresent_def jointValue_def at_index_in)
qed

lemma processAngles_eq: "processAngles lm = Inr (anglesOf calculateAngle lm)"
  unfolding processAngles_def zeroAngles_def anglesOf_def
  by (rule forEachE_total) (rule processAngles_cb_eq)

lemma dom_zeroAngles: "dom zeroAngles = set (map fst FINGER_JOINTS)"
  by (auto simp: zeroAngles_def FINGER_JOINTS_keys)

lemma zeroAngles_at: "f \<in> set (map fst FINGER_JOINTS) \<Longrightarrow> zeroAngles f = Some 0"
  by (auto simp: zeroAngles_def FINGER_JOINTS_keys)

lemma anglesOf_dom:
  "dom (anglesOf calc lm) = {''Thumb'', ''Index'', ''Middle'', ''Ring'', ''Pinky''}"
  unfolding anglesOf_def foldl_assignIf_dom dom_zeroAngles by (auto simp: FINGER_JOINTS_keys)

lemma anglesOf_card: "card (dom (anglesOf calc lm)) = 5"
  unfolding anglesOf_dom by simp

lemma anglesOf_at:
  assumes "(finger, a, b, c) \<in> set FINGER_JOINTS"
  shows "anglesOf calc lm finger
         = Some (if a < length lm \<and> b < length lm \<and> c < length lm
                 then calc (lm ! a) (lm ! b) (lm ! c) else 0)"
proof -
  have t: "map_of FINGER_JOINTS finger = Some (a, b, c)"
    by (rule FINGER_JOINTS_map_of [OF assms])
  have mem: "finger \<in> set (map fst FINGER_JOINTS)" using assms by force
  show ?thesis
  proof (cases "jointsPresent lm finger")
    case True
    have "anglesOf calc lm ((\<lambda>f. f) finger) = Some (jointValue calc lm finger)"
      unfolding anglesOf_def using mem True
      by (intro foldl_assignIf_hit [where key = "\<lambda>f. f" and v = finger
            and P = "jointsPresent lm" and vs = "map fst FINGER_JOINTS"]) simp_all
    then show ?thesis using True by (simp add: jointsPresent_def jointValue_def t)
  next
    case False
    then have "finger \<notin> (\<lambda>f. f) ` {v \<in> set (map fst FINGER_JOINTS). jointsPresent lm v}"
      by auto
    then have "anglesOf calc lm finger = zeroAngles finger"
      unfolding anglesOf_def by (rule foldl_assignIf_other)
    moreover have "\<not> (a < length lm \<and> b < length lm \<and> c < length lm)"
      using False by (simp add: jointsPresent_def t)
    ultimately show ?thesis using zeroAngles_at [OF mem] by auto
  qed
qed

subsection \<open>Side bend and fingertip pairs in closed form\<close>

lemma processSideAngles_cb_eq:
  assumes "finger \<in> set (map fst FINGER_JOINTS)"
  shows "processSideAngles_cb lm angles finger =
           Inr (assignIf (jointsPresent lm) (\<lambda>f. f) (jointValue calculateSideBend lm) angles finger)"
proof -
  obtain a b c where t: "map_of FINGER_JOINTS finger = Some (a, b, c)"
    using FINGER_JOINTS_key_in [OF assms] by (metis prod_cases3)
  show ?thesis
    by (simp add: processSideAngles_cb_def t assignIf_def jointsPresent_def jointValue_def at_index_in)
qed

lemma processSideAngles_eq: "processSideAngles lm = Inr (anglesOf calculateSideBend lm)"
  unfolding processSideAngles_def zeroAngles_def anglesOf_def
  by (rule forEachE_total) (rule processSideAngles_cb_eq)

lemma calculateSideBend_zx:
  "calculateSideBend a b c = calculateAngle (zxPlane a) (zxPlane b) (zxPlane c)"
  by (simp add: calculateSideBend_def calculateAngle_def zxPlane_def)

lemma processSideAngles_cb_zx:
  "processSideAngles_cb lm angles finger = processAngles_cb (map zxPlane lm) angles finger"
proof (cases "map_of FINGER_JOINTS finger")
  case None
  then show ?thesis by (simp add: processSideAngles_cb_def processAngles_cb_def)
next
  case (Some t)
  obtain a b c where t: "t = (a, b, c)" by (cases t)
  show ?thesis
    by (simp add: processSideAngles_cb_def processAngles_cb_def Some t at_index_in
        calculateSideBend_zx)
qed

lemma processSideAngles_zx: "processSideAngles lm = processAngles (map zxPlane lm)"
proof -
  have "processSideAngles_cb lm = processAngles_cb (map zxPlane lm)"
    by (intro ext) (rule processSideAngles_cb_zx)
  then show ?thesis by (simp add: processSideAngles_def processAngles_def)
qed

lemma pairKeys:
  "pairKey 0 = ''4_8''" "pairKey (Suc 0) = ''8_12''" "pairKey 2 = ''12_16''"
  "pairKey 3 = ''16_20''"
  by (simp_all add: pairKey_def FINGER_TIPS_def showNat.simps)

lemma pair_indices: "[0 ..< length FINGER_TIPS - 1] = [0, 1, 2, 3]"
  by (simp add: FINGER_TIPS_def upt_conv_Cons)

lemma pairKey_inj: "inj_on pairKey (set [0 ..< length FINGER_TIPS - 1])"
  unfolding pair_indices by (simp add: pairKeys)

lemma pairBody_v2_eq:
  "pairBody_v2 lm angles i = Inr (assignIf (tipsPresent lm) pairKey (pairValue lm) angles i)"
  by (simp add: pairBody_v2_def assignIf_def tipsPresent_def pairValue_def Let_def at_index_in)

lemma processFingerPairAngles_v2_eq: "processFingerPairAngles_v2 lm = Inr (pairAnglesOf lm)"
  unfolding processFingerPairAngles_v2_def pairAnglesOf_def
  by (rule forEachE_total) (rule pairBody_v2_eq)

lemma pair_index_set: "set [0 ..< length FINGER_TIPS - 1] = {0, 1, 2, 3}"
  unfolding pair_indices by simp

lemma pairAnglesOf_dom: "dom (pairAnglesOf lm) = pairKey ` {i \<in> {0, 1, 2, 3}. tipsPresent lm i}"
  unfolding pairAnglesOf_def foldl_assignIf_dom pair_index_set by simp

lemma pairAnglesOf_card: "card (dom (pairAnglesOf lm)) \<le> 4"
proof -
  have "card (pairKey ` {i \<in> {0, 1, 2, 3}. tipsPresent lm i})
      \<le> card {i \<in> {0, 1, 2, 3 :: nat}. tipsPresent lm i}"
    by (rule card_image_le) simp
  also have "\<dots> \<le> card {0, 1, 2, 3 :: nat}"
    by (rule card_mono) auto
  also have "\<dots> = 4" by simp
  finally show ?thesis unfolding pairAnglesOf_dom .
qed

lemma pairAnglesOf_at:
  assumes "i \<in> {0, 1, 2, 3}" "tipsPresent lm i"
  shows "pairAnglesOf lm (pairKey i) = Some (pairValue lm i)"
proof -
  have mem: "i \<in> set [0 ..< length FINGER_TIPS - 1]" unfolding pair_index_set by (rule assms(1))
  show ?thesis
    unfolding pairAnglesOf_def
    by (rule foldl_assignIf_hit [where key = pairKey and v = i and P = "tipsPresent lm",
          OF pairKey_inj mem assms(2)])
qed

lemma pairAnglesOf_absent:
  assumes "i \<in> {0, 1, 2, 3}" "\<not> tipsPresent lm i"
  shows "pairAnglesOf lm (pairKey i) = None"
proof -
  have "pairKey i \<notin> pairKey ` {j \<in> {0, 1, 2, 3}. tipsPresent lm j}"
  proof
    assume "pairKey i \<in> pairKey ` {j \<in> {0, 1, 2, 3}. tipsPresent lm j}"
    then obtain j where j0: "pairKey i = pairKey j" "j \<in> {j \<in> {0, 1, 2, 3}. tipsPresent lm j}"
      by (rule imageE)
    have j: "j \<in> {0, 1, 2, 3}" "tipsPresent lm j" using j0(2) by simp_all
    have mi: "i \<in> set [0 ..< length FINGER_TIPS - 1]"
      unfolding pair_index_set by (rule assms(1))
    have mj: "j \<in> set [0 ..< length FINGER_TIPS - 1]"
      unfolding pair_index_set by (rule j(1))
    have "i = j" by (rule inj_onD [OF pairKey_inj j0(1) mi mj])
    then show False using j(2) assms(2) by simp
  qed
  then show ?thesis unfolding pairAnglesOf_dom [symmetric] by (simp add: domIff)
qed

lemma pairValue_range: "0 \<le> pairValue lm i \<and> pairValue lm i \<le> 180"
proof -
  define t where "t = atan2 (y (lm ! (FINGER_TIPS ! (i + 1))) - y (lm ! (FINGER_TIPS ! i)))
            (x (lm ! (FINGER_TIPS ! (i + 1))) - x (lm ! (FINGER_TIPS ! i)))"
  have "- pi < t" "t \<le> pi" by (simp_all add: t_def atan2_gt_minus_pi atan2_le_pi)
  then have "\<bar>t\<bar> \<le> pi" by linarith
  then have "\<bar>t\<bar> * (180 / pi) \<le> pi * (180 / pi)" by (rule mult_right_mono) simp
  then have "\<bar>t\<bar> * (180 / pi) \<le> 180" by simp
  moreover have "\<bar>t * 180 / pi\<bar> = \<bar>t\<bar> * (180 / pi)" by (simp add: abs_mult)
  ultimately show ?thesis unfolding pairValue_def t_def [symmetric] by simp
qed

subsection \<open>Failing loops, the gap and the first revision's fingertip pairs\<close>

lemma forEachE_cong:
  "(\<And>s v. v \<in> set vs \<Longrightarrow> cb s v = cb' s v) \<Longrightarrow> forEachE cb vs s = forEachE cb' vs s"
  by (induction vs arbitrary: s) (simp_all add: bindE_def split: sum.splits)

lemma error_is_TypeError: "e = TypeError"
  by (cases e) simp

lemma forEachE_fail:
  "v \<in> set vs \<Longrightarrow> (\<And>s. cb s v = Inl TypeError) \<Longrightarrow> forEachE cb vs s = Inl TypeError"
proof (induction vs arbitrary: s)
  case Nil
  then show ?case by simp
next
  case (Cons w ws)
  show ?case
  proof (cases "cb s w")
    case (Inl e)
    then show ?thesis using error_is_TypeError [of e] by simp
  next
    case (Inr s')
    then have "v \<noteq> w" using Cons.prems(2) [of s] by auto
    then have "v \<in> set ws" using Cons.prems(1) by simp
    then have "forEachE cb ws s' = Inl TypeError" using Cons.prems(2) by (rule Cons.IH)
    then show ?thesis using Inr by simp
  qed
qed

lemma truthy_simps [simp]: "truthy (Some v)" "\<not> truthy None"
  by (simp_all add: truthy_def)

lemma gap_v2_eq:
  "gap_v2 lm = Inr (if 8 < length lm
                    then hypot (x (lm ! 8) - x (lm ! 4)) (y (lm ! 8) - y (lm ! 4)) else 0)"
  by (simp add: gap_v2_def Let_def at_index_in)

lemma hypot_nonneg: "0 \<le> hypot dx dy"
  by (simp add: hypot_def)

lemma hypot_3_4: "hypot 3 4 = 5"
proof -
  have "hypot 3 4 = sqrt (5\<^sup>2)" by (simp add: hypot_def)
  then show ?thesis by simp
qed

lemma gap_v1_short: "length lm \<le> 8 \<Longrightarrow> gap_v1 lm = Inl TypeError"
  by (simp add: gap_v1_def Let_def at_index_out)

lemma gap_v1_long: "8 < length lm \<Longrightarrow> gap_v1 lm = gap_v2 lm"
  by (simp add: gap_v1_def gap_v2_def Let_def at_index_in)

lemma pairBody_v1_fail:
  "\<not> FINGER_TIPS ! (i + 1) < length lm \<Longrightarrow> pairBody_v1 lm angles i = Inl TypeError"
  by (simp add: pairBody_v1_def Let_def at_index_out)

lemma processFingerPairAngles_v1_short:
  assumes "length lm \<le> 20"
  shows "processFingerPairAngles_v1 lm = Inl TypeError"
proof -
  have "\<exists>i \<in> set [0 ..< length FINGER_TIPS - 1]. \<not> FINGER_TIPS ! (i + 1) < length lm"
    unfolding pair_indices using assms by (simp add: FINGER_TIPS_def)
  then obtain i where i: "i \<in> set [0 ..< length FINGER_TIPS - 1]"
      "\<not> FINGER_TIPS ! (i + 1) < length lm"
    by blast
  show ?thesis
    unfolding processFingerPairAngles_v1_def
    by (rule forEachE_fail [OF i(1)]) (rule pairBody_v1_fail [OF i(2)])
qed

lemma processFingerPairAngles_v1_long:
  assumes "20 < length lm"
  shows "processFingerPairAngles_v1 lm = processFingerPairAngles_v2 lm"
  unfolding processFingerPairAngles_v1_def processFingerPairAngles_v2_def
proof (rule forEachE_cong)
  fix s i
  assume "i \<in> set [0 ..< length FINGER_TIPS - 1]"
  then have "i \<in> {0, 1, 2, 3}" unfolding pair_indices by simp
  then have "FINGER_TIPS ! i < length lm \<and> FINGER_TIPS ! (i + 1) < length lm"
    using assms by (auto simp: FINGER_TIPS_def)
  then show "pairBody_v1 lm s i = pairBody_v2 lm s i"
    by (simp add: pairBody_v1_def pairBody_v2_def Let_def)
qed

subsection \<open>Frame assembly\<close>

lemma forEachE_append_each:
  assumes "\<And>acc v. v \<in> set vs \<Longrightarrow> \<exists>h. cb acc v = Inr (acc @ [h]) \<and> Q v h"
  shows "\<exists>hs. forEachE cb vs acc = Inr (acc @ hs) \<and> list_all2 Q vs hs"
  using assms
proof (induction vs arbitrary: acc)
  case Nil
  then show ?case by simp
next
  case (Cons v vs)
  obtain h where h: "cb acc v = Inr (acc @ [h])" "Q v h"
    using Cons.prems [of v acc] by auto
  have "\<exists>hs. forEachE cb vs (acc @ [h]) = Inr ((acc @ [h]) @ hs) \<and> list_all2 Q vs hs"
    by (rule Cons.IH) (simp add: Cons.prems)
  then obtain hs where hs: "forEachE cb vs (acc @ [h]) = Inr ((acc @ [h]) @ hs)"
      "list_all2 Q vs hs"
    by blast
  have "forEachE cb (v # vs) acc = Inr (acc @ (h # hs))" using h(1) hs(1) by simp
  moreover have "list_all2 Q (v # vs) (h # hs)" using h(2) hs(2) by simp
  ultimately show ?case by blast
qed

lemma handCallback_v2_ok:
  assumes "i < length labels"
  shows "\<exists>h. handCallback_v2 now labels hands (raw, i) = Inr (hands @ [h]) \<and>
           landmarks h = map toHandLandmark raw"
proof -
  let ?lm = "map toHandLandmark raw"
  obtain fa where fa: "processAngles ?lm = Inr fa" using processAngles_eq by blast
  obtain fpa where fpa: "processFingerPairAngles_v2 ?lm = Inr fpa"
    using processFingerPairAngles_v2_eq by blast
  obtain sa where sa: "processSideAngles ?lm = Inr sa" using processSideAngles_eq by blast
  obtain g where g: "gap_v2 ?lm = Inr g" using gap_v2_eq by blast
  show ?thesis
    using assms by (simp add: handCallback_v2_def at_index_in fa fpa sa g)
qed

lemma handCallback_v1_ok:
  assumes "i < length labels" "20 < length raw"
  shows "\<exists>h. handCallback_v1 now labels hands (raw, i) = Inr (hands @ [h]) \<and>
           landmarks h = map toHandLandmark raw"
proof -
  let ?lm = "map toHandLandmark raw"
  have len: "20 < length ?lm" "8 < length ?lm" using assms(2) by simp_all
  obtain fa where fa: "processAngles ?lm = Inr fa" using processAngles_eq by blast
  obtain fpa where fpa: "processFingerPairAngles_v1 ?lm = Inr fpa"
    using processFingerPairAngles_v2_eq processFingerPairAngles_v1_long [OF len(1)] by metis
  obtain g where g: "gap_v1 ?lm = Inr g" using gap_v2_eq gap_v1_long [OF len(2)] by metis
  show ?thesis
    using assms(1) by (simp add: handCallback_v1_def at_index_in fa fpa g)
qed

lemma handCallback_v1_short:
  assumes "length raw \<le> 20"
  shows "handCallback_v1 now labels hands (raw, i) = Inl TypeError"
proof -
  let ?lm = "map toHandLandmark raw"
  obtain fa where fa: "processAngles ?lm = Inr fa" using processAngles_eq by blast
  have fpa: "processFingerPairAngles_v1 ?lm = Inl TypeError"
    by (rule processFingerPairAngles_v1_short) (simp add: assms)
  show ?thesis
    by (cases "i < length labels") (simp_all add: handCallback_v1_def at_index_def fa fpa)
qed

lemma zip_upt_index: "(raw, i) \<in> set (zip hs [0 ..< length hs]) \<Longrightarrow> i < length hs \<and> raw \<in> set hs"
  by (auto dest: set_zip_rightD set_zip_leftD)

lemma list_all2_landmarks:
  "list_all2 (\<lambda>v h. landmarks h = map toHandLandmark (fst v)) (zip hs [0 ..< length hs]) hands
   \<Longrightarrow> map landmarks hands = map (map toHandLandmark) hs"
proof -
  assume a: "list_all2 (\<lambda>v h. landmarks h = map toHandLandmark (fst v)) (zip hs [0 ..< length hs]) hands"
  have "list_all2 (\<lambda>raw v. raw = fst v) hs (zip hs [0 ..< length hs])"
    by (simp add: list_all2_conv_all_nth)
  then have "list_all2 (\<lambda>raw h. landmarks h = map toHandLandmark raw) hs hands"
    using a by (auto simp: list_all2_conv_all_nth)
  then show ?thesis
    by (auto simp: list_all2_conv_all_nth intro!: nth_equalityI)
qed

lemma onResults_v2_ok:
  assumes "multiHandLandmarks r = Some hs" "multiHandedness r = Some labels"
    "length hs \<le> length labels"
  shows "\<exists>hands. onResults_v2 now True r = Inr (Some hands) \<and>
           map landmarks hands = map (map toHandLandmark) hs"
proof -
  have "\<exists>hands. forEachE (handCallback_v2 now labels) (zip hs [0 ..< length hs]) []
          = Inr ([] @ hands) \<and>
        list_all2 (\<lambda>v h. landmarks h = map toHandLandmark (fst v)) (zip hs [0 ..< length hs]) hands"
  proof (rule forEachE_append_each)
    fix acc v
    assume v: "v \<in> set (zip hs [0 ..< length hs])"
    obtain raw i where vi: "v = (raw, i)" by (cases v)
    have "i < length labels" using v assms(3) zip_upt_index [of raw i hs] by (simp add: vi)
    then show "\<exists>h. handCallback_v2 now labels acc v = Inr (acc @ [h]) \<and>
        landmarks h = map toHandLandmark (fst v)"
      unfolding vi using handCallback_v2_ok [of i labels now acc raw] by simp
  qed
  then obtain hands where h:
    "forEachE (handCallback_v2 now labels) (zip hs [0 ..< length hs]) [] = Inr hands"
    "list_all2 (\<lambda>v h. landmarks h = map toHandLandmark (fst v)) (zip hs [0 ..< length hs]) hands"
    by auto
  have "onResults_v2 now True r = Inr (Some hands)"
    by (simp add: onResults_v2_def assms(1,2) h(1))
  then show ?thesis using list_all2_landmarks [OF h(2)] by blast
qed

lemma onResults_v1_ok:
  assumes "multiHandLandmarks r = Some hs" "multiHandedness r = Some labels"
    "length hs \<le> length labels" "\<forall>raw \<in> set hs. 20 < length raw"
  shows "\<exists>hands. onResults_v1 now True r = Inr (Some hands) \<and>
           map landmarks hands = map (map toHandLandmark) hs"
proof -
  have "\<exists>hands. forEachE (handCallback_v1 now labels) (zip hs [0 ..< length hs]) []
          = Inr ([] @ hands) \<and>
        list_all2 (\<lambda>v h. landmarks h = map toHandLandmark (fst v)) (zip hs [0 ..< length hs]) hands"
  proof (rule forEachE_append_each)
    fix acc v
    assume v: "v \<in> set (zip hs [0 ..< length hs])"
    obtain raw i where vi: "v = (raw, i)" by (cases v)
    have "i < length labels" "20 < length raw"
      using v assms(3,4) zip_upt_index [of raw i hs] by (simp_all add: vi)
    then show "\<exists>h. handCallback_v1 now labels acc v = Inr (acc @ [h]) \<and>
        landmarks h = map toHandLandmark (fst v)"
      unfolding vi using handCallback_v1_ok [of i labels raw now acc] by simp
  qed
  then obtain hands where h:
    "forEachE (handCallback_v1 now labels) (zip hs [0 ..< length hs]) [] = Inr hands"
    "list_all2 (\<lambda>v h. landmarks h = map toHandLandmark (fst v)) (zip hs [0 ..< length hs]) hands"
    by auto
  have "onResults_v1 now True r = Inr (Some hands)"
    by (simp add: onResults_v1_def assms(1,2) h(1))
  then show ?thesis using list_all2_landmarks [OF h(2)] by blast
qed

lemma onResults_v1_short:
  assumes "multiHandLandmarks r = Some hs" "multiHandedness r = Some labels"
    "raw \<in> set hs" "length raw \<le> 20"
  shows "onResults_v1 now True r = Inl TypeError"
proof -
  obtain i where i: "(raw, i) \<in> set (zip hs [0 ..< length hs])"
    using assms(3) by (metis in_set_conv_nth in_set_zip fst_conv snd_conv length_upt
        diff_zero nth_upt add_0)
  have "forEachE (handCallback_v1 now labels) (zip hs [0 ..< length hs]) [] = Inl TypeError"
    by (rule forEachE_fail [OF i]) (rule handCallback_v1_short [OF assms(4)])
  then show ?thesis by (simp add: onResults_v1_def assms(1,2))
qed

text \<open>
  Both revisions read \<^verbatim>\<open>results.multiHandedness[i].label\<close> first: a hand
  without a handedness entry raises in either.
\<close>

lemma onResults_missing_label:
  "onResults_v1 0 True \<lparr>multiHandLandmarks = Some [replicate 21 rawOrigin],
       multiHandedness = Some []\<rparr> = Inl TypeError \<and>
   onResults_v2 0 True \<lparr>multiHandLandmarks = Some [replicate 21 rawOrigin],
       multiHandedness = Some []\<rparr> = Inl TypeError"
  by (simp add: onResults_v1_def onResults_v2_def handCallback_v1_def handCallback_v2_def
      at_index_def upt_conv_Cons)

subsection \<open>The second revision's fingertip pairs and gap\<close>

lemma processFingerPairAngles_v2_pairs:
  "\<exists>m. processFingerPairAngles_v2 lm = Inr m \<and>
     card (dom m) \<le> 4 \<and>
     dom m \<subseteq> {''4_8'', ''8_12'', ''12_16'', ''16_20''} \<and>
     (\<forall>i \<in> {0, 1, 2, 3}.
        m (pairKey i) = (if tipsPresent lm i then Some (pairValue lm i) else None)) \<and>
     (\<forall>i. 0 \<le> pairValue lm i \<and> pairValue lm i \<le> 180)"
proof (intro exI conjI)
  show "processFingerPairAngles_v2 lm = Inr (pairAnglesOf lm)"
    by (rule processFingerPairAngles_v2_eq)
  show "card (dom (pairAnglesOf lm)) \<le> 4" by (rule pairAnglesOf_card)
  show "dom (pairAnglesOf lm) \<subseteq> {''4_8'', ''8_12'', ''12_16'', ''16_20''}"
    unfolding pairAnglesOf_dom by (auto simp: pairKeys)
  show "\<forall>i \<in> {0, 1, 2, 3}.
      pairAnglesOf lm (pairKey i) = (if tipsPresent lm i then Some (pairValue lm i) else None)"
  proof
    fix i :: nat
    assume i: "i \<in> {0, 1, 2, 3}"
    show "pairAnglesOf lm (pairKey i) = (if tipsPresent lm i then Some (pairValue lm i) else None)"
      using pairAnglesOf_at [OF i] pairAnglesOf_absent [OF i] by (cases "tipsPresent lm i") simp_all
  qed
  show "\<forall>i. 0 \<le> pairValue lm i \<and> pairValue lm i \<le> 180"
    using pairValue_range by blast
qed

lemma gap_v2_metric:
  "\<exists>g. gap_v2 lm = Inr g \<and> 0 \<le> g \<and>
     g = (if 4 < length lm \<and> 8 < length lm
          then sqrt ((x (lm ! 8) - x (lm ! 4))\<^sup>2 + (y (lm ! 8) - y (lm ! 4))\<^sup>2) else 0)"
  by (simp add: gap_v2_eq hypot_def power2_eq_square)

lemma gap_v2_3_4:
  "gap_v2 ((replicate 21 origin)[8 := \<lparr>x = 3, y = 4, z = 0\<rparr>]) = Inr 5"
  by (simp add: gap_v2_eq origin_def hypot_3_4)

subsection \<open>Facts about the sample inputs\<close>

lemma toHandLandmark_rawOrigin: "toHandLandmark rawOrigin = origin"
  by (simp add: toHandLandmark_def rawOrigin_def origin_def)

lemma calculateAngle_straight:
  "calculateAngle \<lparr>x = 2, y = 0, z = 0\<rparr> \<lparr>x = 1, y = 0, z = 0\<rparr> \<lparr>x = 0, y = 0, z = 0\<rparr> = 180"
  by (simp add: calculateAngle_def atan2_def)

lemma Index_joints: "(''Index'', 5, 6, 8) \<in> set FINGER_JOINTS"
  by (simp add: FINGER_JOINTS_def)

section \<open>The claims\<close>

text \<open>
  C4. For all points \<open>a\<close>, \<open>b\<close>, \<open>c\<close> the bend angle \<open>calculateAngle a b c\<close>
  lies between 0 and 180; it is the absolute difference of the polar angles
  of the vectors from \<open>b\<close> to \<open>c\<close> and from \<open>b\<close> to \<open>a\<close> in degrees,
  replaced by 360 minus itself when above 180; for three coincident points it
  is 0.
\<close>

theorem calculateAngle_bend_angle:
  "0 \<le> calculateAngle a b c \<and> calculateAngle a b c \<le> 180 \<and>
   calculateAngle a b c = bendAngleSpec a b c \<and>
   calculateAngle p p p = 0"
  using calculateAngle_range [of a b c] calculateAngle_spec [of a b c]
    calculateAngle_coincident [of p]
  by simp

text \<open>
  C7. The bend angle is the same when base and tip are exchanged:
  \<open>calculateAngle a b c = calculateAngle c b a\<close>.
\<close>

theorem calculateAngle_symmetric: "calculateAngle a b c = calculateAngle c b a"
proof -
  define s where "s = atan2 (y c - y b) (x c - x b)"
  define t where "t = atan2 (y a - y b) (x a - x b)"
  have "\<bar>(s - t) * (180 / pi)\<bar> = \<bar>- ((t - s) * (180 / pi))\<bar>"
    by (simp add: algebra_simps)
  also have "\<dots> = \<bar>(t - s) * (180 / pi)\<bar>" by (rule abs_minus)
  finally have "\<bar>(s - t) * (180 / pi)\<bar> = \<bar>(t - s) * (180 / pi)\<bar>" .
  then show ?thesis
    unfolding calculateAngle_def Let_def s_def [symmetric] t_def [symmetric]
    by (simp only:)
qed

text \<open>
  C1, as amended. \<^verbatim>\<open>onResults\<close> has no test of the landmark count. Take a
  frame, with canvas, context and video present, in which both arrays are
  there and every reported hand has a handedness entry (there are at least as
  many handedness entries as hands). For such a frame the second revision
  emits one record per reported hand, in the detector's order, whose
  \<open>landmarks\<close> are the hand's landmarks in the canonical shape: each record
  has as many landmarks as the detector reported for its hand, 21 or not. The
  first revision does the same for such a frame when, in addition, every hand
  of the frame has more than 20 landmarks.
\<close>

theorem onResults_keeps_every_hand:
  assumes "multiHandLandmarks r = Some hs" "multiHandedness r = Some labels"
    "length hs \<le> length labels"
  shows "(\<exists>hands. onResults_v2 now True r = Inr (Some hands) \<and>
            map landmarks hands = map (map toHandLandmark) hs) \<and>
         ((\<forall>raw \<in> set hs. 20 < length raw) \<longrightarrow>
          (\<exists>hands. onResults_v1 now True r = Inr (Some hands) \<and>
            map landmarks hands = map (map toHandLandmark) hs))"
proof (intro conjI impI)
  show "\<exists>hands. onResults_v2 now True r = Inr (Some hands) \<and>
            map landmarks hands = map (map toHandLandmark) hs"
    by (rule onResults_v2_ok [OF assms])
next
  assume "\<forall>raw \<in> set hs. 20 < length raw"
  then show "\<exists>hands. onResults_v1 now True r = Inr (Some hands) \<and>
            map landmarks hands = map (map toHandLandmark) hs"
    by (rule onResults_v1_ok [OF assms])
qed

text \<open>A frame with one hand of 22 landmarks: both revisions emit a record with 22 landmarks.\<close>

theorem onResults_keeps_every_hand_witness:
  "multiHandLandmarks \<lparr>multiHandLandmarks = Some [replicate 22 rawOrigin],
       multiHandedness = Some [''Right'']\<rparr> = Some [replicate 22 rawOrigin] \<and>
   multiHandedness \<lparr>multiHandLandmarks = Some [replicate 22 rawOrigin],
       multiHandedness = Some [''Right'']\<rparr> = Some [''Right''] \<and>
   length [replicate 22 rawOrigin] \<le> length [''Right''] \<and>
   20 < length (replicate 22 rawOrigin) \<and>
   (\<exists>hands. onResults_v2 0 True \<lparr>multiHandLandmarks = Some [replicate 22 rawOrigin],
       multiHandedness = Some [''Right'']\<rparr> = Inr (Some hands) \<and>
      map landmarks hands = [replicate 22 origin]) \<and>
   (\<exists>hands. onResults_v1 0 True \<lparr>multiHandLandmarks = Some [replicate 22 rawOrigin],
       multiHandedness = Some [''Right'']\<rparr> = Inr (Some hands) \<and>
      map landmarks hands = [replicate 22 origin])"
  using onResults_keeps_every_hand [of "\<lparr>multiHandLandmarks = Some [replicate 22 rawOrigin],
       multiHandedness = Some [''Right'']\<rparr>" "[replicate 22 rawOrigin]" "[''Right'']" 0]
  by (simp add: toHandLandmark_rawOrigin)

text \<open>
  C1 as stated fails: for a frame whose only hand has a single landmark the
  second revision emits one record, and that record has one landmark.
\<close>

theorem onResults_v2_short_hand_emitted:
  "(case onResults_v2 0 True \<lparr>multiHandLandmarks = Some [[rawOrigin]],
        multiHandedness = Some [''Left'']\<rparr> of
      Inr (Some hands) \<Rightarrow> map (\<lambda>h. length (landmarks h)) hands
    | _ \<Rightarrow> []) = [1]"
proof -
  have "\<exists>hands. onResults_v2 0 True \<lparr>multiHandLandmarks = Some [[rawOrigin]],
        multiHandedness = Some [''Left'']\<rparr> = Inr (Some hands) \<and>
      map landmarks hands = map (map toHandLandmark) [[rawOrigin]]"
    by (rule onResults_v2_ok [where labels = "[''Left'']"]) simp_all
  then obtain hands where h: "onResults_v2 0 True \<lparr>multiHandLandmarks = Some [[rawOrigin]],
        multiHandedness = Some [''Left'']\<rparr> = Inr (Some hands) \<and>
      map landmarks hands = map (map toHandLandmark) [[rawOrigin]]" ..
  have "map (\<lambda>h. length (landmarks h)) hands = map length (map landmarks hands)"
    by (simp add: comp_def)
  then show ?thesis using h by simp
qed

text \<open>
  C2 at a failing input. A frame of the first revision with a complete hand of
  21 landmarks followed by a hand of 20 landmarks: \<^verbatim>\<open>processFingerPairAngles\<close>
  reads \<^verbatim>\<open>tip2.x\<close> of the missing landmark 20, the exception leaves
  \<^verbatim>\<open>onResults\<close>, and no list is handed on, not even the record of the complete
  hand.
\<close>

theorem onResults_v1_short_hand_raises:
  "onResults_v1 0 True \<lparr>multiHandLandmarks = Some [replicate 21 rawOrigin, replicate 20 rawOrigin],
       multiHandedness = Some [''Right'', ''Left'']\<rparr> = Inl TypeError"
  by (rule onResults_v1_short [where raw = "replicate 20 rawOrigin"
        and hs = "[replicate 21 rawOrigin, replicate 20 rawOrigin]"
        and labels = "[''Right'', ''Left'']"]) simp_all

text \<open>
  C3, as amended. For every landmark list \<^verbatim>\<open>processAngles\<close> returns a map with
  exactly the five entries Thumb, Index, Middle, Ring and Pinky. A finger with a
  joint index beyond the end of the list has angle 0. A finger whose three
  landmarks are present has the angle \<open>calculateAngle\<close> of them, whatever
  their coordinates: a landmark at the zero vector is a present landmark.
\<close>

theorem processAngles_five_entries:
  "\<exists>m. processAngles lm = Inr m \<and>
     dom m = {''Thumb'', ''Index'', ''Middle'', ''Ring'', ''Pinky''} \<and>
     card (dom m) = 5 \<and>
     (\<forall>(f, a, b, c) \<in> set FINGER_JOINTS.
        m f = Some (if a < length lm \<and> b < length lm \<and> c < length lm
                    then calculateAngle (lm ! a) (lm ! b) (lm ! c) else 0))"
proof (intro exI conjI)
  show "processAngles lm = Inr (anglesOf calculateAngle lm)" by (rule processAngles_eq)
  show "dom (anglesOf calculateAngle lm) = {''Thumb'', ''Index'', ''Middle'', ''Ring'', ''Pinky''}"
    by (rule anglesOf_dom)
  show "card (dom (anglesOf calculateAngle lm)) = 5" by (rule anglesOf_card)
  show "\<forall>(f, a, b, c) \<in> set FINGER_JOINTS.
        anglesOf calculateAngle lm f = Some (if a < length lm \<and> b < length lm \<and> c < length lm
                    then calculateAngle (lm ! a) (lm ! b) (lm ! c) else 0)"
  proof (intro ballI)
    fix t assume t: "t \<in> set FINGER_JOINTS"
    obtain f a b c where e: "t = (f, a, b, c)" by (cases t)
    show "case t of (f, a, b, c) \<Rightarrow>
        anglesOf calculateAngle lm f = Some (if a < length lm \<and> b < length lm \<and> c < length lm
                    then calculateAngle (lm ! a) (lm ! b) (lm ! c) else 0)"
      unfolding e using anglesOf_at [of f a b c calculateAngle lm] t e by simp
  qed
qed

text \<open>A list of three landmarks: five entries, all 0.\<close>

theorem processAngles_five_entries_witness:
  "\<exists>m. processAngles (replicate 3 origin) = Inr m \<and> card (dom m) = 5 \<and>
     m ''Thumb'' = Some 0 \<and> m ''Index'' = Some 0 \<and> m ''Middle'' = Some 0 \<and>
     m ''Ring'' = Some 0 \<and> m ''Pinky'' = Some 0"
proof -
  from processAngles_five_entries [of "replicate 3 origin"]
  obtain m where m: "processAngles (replicate 3 origin) = Inr m \<and>
     dom m = {''Thumb'', ''Index'', ''Middle'', ''Ring'', ''Pinky''} \<and>
     card (dom m) = 5 \<and>
     (\<forall>(f, a, b, c) \<in> set FINGER_JOINTS.
        m f = Some (if a < length (replicate 3 origin) \<and> b < length (replicate 3 origin)
                        \<and> c < length (replicate 3 origin)
                    then calculateAngle (replicate 3 origin ! a) (replicate 3 origin ! b)
                           (replicate 3 origin ! c) else 0))" ..
  then have "m ''Thumb'' = Some 0 \<and> m ''Index'' = Some 0 \<and> m ''Middle'' = Some 0 \<and>
     m ''Ring'' = Some 0 \<and> m ''Pinky'' = Some 0"
    by (simp add: FINGER_JOINTS_def)
  then show ?thesis using m by (intro exI [of _ m]) simp
qed

text \<open>
  C3 as stated fails: in a hand of 21 landmarks whose index fingertip is the
  zero vector, with index base \<open>(2, 0, 0)\<close> and joint \<open>(1, 0, 0)\<close>, the
  Index angle is 180, not 0.
\<close>

theorem processAngles_zero_tip_counterexample:
  "length zeroTipHand = 21 \<and> zeroTipHand ! 8 = \<lparr>x = 0, y = 0, z = 0\<rparr> \<and>
   (case processAngles zeroTipHand of Inr m \<Rightarrow> m ''Index'' | Inl e \<Rightarrow> None) = Some 180"
proof -
  have "anglesOf calculateAngle zeroTipHand ''Index'' = Some 180"
    unfolding anglesOf_at [OF Index_joints]
    by (simp add: zeroTipHand_def origin_def calculateAngle_straight)
  then show ?thesis by (simp add: processAngles_eq zeroTipHand_def origin_def)
qed

text \<open>
  C5 at a failing input. A hand of 10 landmarks has the tips 4 and 8 and lacks
  12, 16 and 20. The first revision's \<^verbatim>\<open>processFingerPairAngles\<close> raises at
  the pair (8, 12); the second revision returns the map with the one key
  \<^verbatim>\<open>4_8\<close>.
\<close>

theorem processFingerPairAngles_v1_missing_tip_raises:
  "processFingerPairAngles_v1 (replicate 10 origin) = Inl TypeError \<and>
   map_sum id dom (processFingerPairAngles_v2 (replicate 10 origin)) = Inr {''4_8''}"
proof -
  have "processFingerPairAngles_v1 (replicate 10 origin) = Inl TypeError"
    by (rule processFingerPairAngles_v1_short) simp
  moreover have "{i \<in> {0, 1, 2, 3}. tipsPresent (replicate 10 origin) i} = {0}"
    by (auto simp: tipsPresent_def FINGER_TIPS_def)
  then have "dom (pairAnglesOf (replicate 10 origin)) = {''4_8''}"
    unfolding pairAnglesOf_dom by (simp add: pairKeys)
  ultimately show ?thesis by (simp add: processFingerPairAngles_v2_eq)
qed

text \<open>
  C6 at a failing input. A hand of 5 landmarks has the thumb tip and lacks the
  index tip. The first revision's gap expression raises on it, and so does the
  frame that holds such a hand; the second revision's gap is 0.
\<close>

theorem gap_v1_missing_tip_raises:
  "gap_v1 (replicate 5 origin) = Inl TypeError \<and>
   onResults_v1 0 True \<lparr>multiHandLandmarks = Some [replicate 5 rawOrigin],
       multiHandedness = Some [''Left'']\<rparr> = Inl TypeError \<and>
   gap_v2 (replicate 5 origin) = Inr 0"
proof -
  have "onResults_v1 0 True \<lparr>multiHandLandmarks = Some [replicate 5 rawOrigin],
       multiHandedness = Some [''Left'']\<rparr> = Inl TypeError"
    by (rule onResults_v1_short [where raw = "replicate 5 rawOrigin"
          and hs = "[replicate 5 rawOrigin]" and labels = "[''Left'']"]) simp_all
  then show ?thesis by (simp add: gap_v1_short gap_v2_eq)
qed

text \<open>
  C8. \<open>calculateSideBend\<close> is \<open>calculateAngle\<close> on the points seen in
  the (z, x) plane, and \<^verbatim>\<open>processSideAngles\<close> is \<^verbatim>\<open>processAngles\<close> on these
  points: the same joint triples, and angle 0 for a finger with a missing
  landmark.
\<close>

theorem side_bend_is_bend_in_zx_plane:
  "calculateSideBend a b c = calculateAngle (zxPlane a) (zxPlane b) (zxPlane c) \<and>
   processSideAngles lm = processAngles (map zxPlane lm) \<and>
   (\<exists>m. processSideAngles lm = Inr m \<and>
      dom m = {''Thumb'', ''Index'', ''Middle'', ''Ring'', ''Pinky''} \<and>
      (\<forall>(f, i, j, k) \<in> set FINGER_JOINTS.
         m f = Some (if i < length lm \<and> j < length lm \<and> k < length lm
                     then calculateSideBend (lm ! i) (lm ! j) (lm ! k) else 0)))"
proof (intro conjI exI)
  show "calculateSideBend a b c = calculateAngle (zxPlane a) (zxPlane b) (zxPlane c)"
    by (rule calculateSideBend_zx)
  show "processSideAngles lm = processAngles (map zxPlane lm)"
    by (rule processSideAngles_zx)
  show "processSideAngles lm = Inr (anglesOf calculateSideBend lm)"
    by (rule processSideAngles_eq)
  show "dom (anglesOf calculateSideBend lm) = {''Thumb'', ''Index'', ''Middle'', ''Ring'', ''Pinky''}"
    by (rule anglesOf_dom)
  show "\<forall>(f, i, j, k) \<in> set FINGER_JOINTS.
         anglesOf calculateSideBend lm f = Some (if i < length lm \<and> j < length lm \<and> k < length lm
                     then calculateSideBend (lm ! i) (lm ! j) (lm ! k) else 0)"
  proof (intro ballI)
    fix t assume t: "t \<in> set FINGER_JOINTS"
    obtain f i j k where e: "t = (f, i, j, k)" by (cases t)
    show "case t of (f, i, j, k) \<Rightarrow>
         anglesOf calculateSideBend lm f = Some (if i < length lm \<and> j < length lm \<and> k < length lm
                     then calculateSideBend (lm ! i) (lm ! j) (lm ! k) else 0)"
      unfolding e using anglesOf_at [of f i j k calculateSideBend lm] t e by simp
  qed
qed

text \<open>Three points in a line along \<open>z\<close>, and a list of three landmarks.\<close>

theorem side_bend_is_bend_in_zx_plane_witness:
  "calculateSideBend \<lparr>x = 0, y = 5, z = 2\<rparr> \<lparr>x = 0, y = 6, z = 1\<rparr> \<lparr>x = 0, y = 7, z = 0\<rparr> = 180 \<and>
   (\<exists>m. processSideAngles (replicate 3 origin) = Inr m \<and>
      processAngles (map zxPlane (replicate 3 origin)) = Inr m \<and>
      m ''Thumb'' = Some 0 \<and> m ''Pinky'' = Some 0)"
proof -
  note t = side_bend_is_bend_in_zx_plane [of "\<lparr>x = 0, y = 5, z = 2\<rparr>" "\<lparr>x = 0, y = 6, z = 1\<rparr>"
      "\<lparr>x = 0, y = 7, z = 0\<rparr>" "replicate 3 origin"]
  have 1: "calculateSideBend \<lparr>x = 0, y = 5, z = 2\<rparr> \<lparr>x = 0, y = 6, z = 1\<rparr> \<lparr>x = 0, y = 7, z = 0\<rparr> = 180"
    using t by (simp add: zxPlane_def calculateAngle_def atan2_def)
  from t [THEN conjunct2, THEN conjunct2]
  obtain m where m: "processSideAngles (replicate 3 origin) = Inr m \<and>
      dom m = {''Thumb'', ''Index'', ''Middle'', ''Ring'', ''Pinky''} \<and>
      (\<forall>(f, i, j, k) \<in> set FINGER_JOINTS.
         m f = Some (if i < length (replicate 3 origin) \<and> j < length (replicate 3 origin)
                        \<and> k < length (replicate 3 origin)
                     then calculateSideBend (replicate 3 origin ! i) (replicate 3 origin ! j)
                            (replicate 3 origin ! k) else 0))" ..
  then have "m ''Thumb'' = Some 0 \<and> m ''Pinky'' = Some 0" by (simp add: FINGER_JOINTS_def)
  moreover have "processAngles (map zxPlane (replicate 3 origin)) = Inr m"
    using t m by simp
  ultimately show ?thesis using 1 m by (intro conjI exI [of _ m]) simp_all
qed

text \<open>
  C9. In the second revision every computation on one hand returns, for a
  landmark list of any length: \<^verbatim>\<open>processAngles\<close> and \<^verbatim>\<open>processSideAngles\<close>
  give maps of five entries, \<^verbatim>\<open>processFingerPairAngles\<close> a map of at most four
  entries, the gap is non-negative and is 0 when a tip is missing, and the
  callback pushes the record built from them.
\<close>

theorem guarded_extractor_total:
  "\<exists>fa sa fpa g.
     processAngles lm = Inr fa \<and> processSideAngles lm = Inr sa \<and>
     processFingerPairAngles_v2 lm = Inr fpa \<and> gap_v2 lm = Inr g \<and>
     card (dom fa) = 5 \<and> card (dom sa) = 5 \<and> card (dom fpa) \<le> 4 \<and>
     0 \<le> g \<and> (length lm \<le> 8 \<longrightarrow> g = 0) \<and>
     (lm = map toHandLandmark raw \<longrightarrow> i < length labels \<longrightarrow>
        handCallback_v2 now labels hands (raw, i) =
          Inr (hands @ [\<lparr>landmarks = lm, fingerAngles = fa, fingerPairAngles = Some fpa,
                          handedness = labels ! i, gap = g, timestamp = now\<rparr>]))"
proof -
  define g where "g = (if 8 < length lm
      then hypot (x (lm ! 8) - x (lm ! 4)) (y (lm ! 8) - y (lm ! 4)) else 0)"
  have g: "gap_v2 lm = Inr g" unfolding g_def by (rule gap_v2_eq)
  have g0: "0 \<le> g" unfolding g_def by (simp add: hypot_nonneg)
  have g1: "length lm \<le> 8 \<longrightarrow> g = 0" unfolding g_def by simp
  have cb: "lm = map toHandLandmark raw \<longrightarrow> i < length labels \<longrightarrow>
        handCallback_v2 now labels hands (raw, i) =
          Inr (hands @ [\<lparr>landmarks = lm, fingerAngles = anglesOf calculateAngle lm,
                          fingerPairAngles = Some (pairAnglesOf lm),
                          handedness = labels ! i, gap = g, timestamp = now\<rparr>])"
    using g
    by (auto simp add: handCallback_v2_def at_index_in processAngles_eq
        processFingerPairAngles_v2_eq processSideAngles_eq Let_def)
  show ?thesis
    using processAngles_eq [of lm] processSideAngles_eq [of lm]
      processFingerPairAngles_v2_eq [of lm] g
      anglesOf_card [of calculateAngle lm] anglesOf_card [of calculateSideBend lm]
      pairAnglesOf_card [of lm] g0 g1 cb
    by (intro exI conjI)
qed

text \<open>The empty landmark list.\<close>

theorem guarded_extractor_total_witness:
  "length ([] :: HandLandmark list) \<le> 8 \<and> [] = map toHandLandmark [] \<and>
   (0 :: nat) < length [''Left''] \<and>
   (\<exists>fa sa fpa.
      processAngles [] = Inr fa \<and> processSideAngles [] = Inr sa \<and>
      processFingerPairAngles_v2 [] = Inr fpa \<and> gap_v2 [] = Inr 0 \<and>
      handCallback_v2 0 [''Left''] [] ([], 0) =
        Inr [\<lparr>landmarks = [], fingerAngles = fa, fingerPairAngles = Some fpa,
               handedness = ''Left'', gap = 0, timestamp = 0\<rparr>])"
proof -
  from guarded_extractor_total [of "[]" "[]" 0 "[''Left'']" 0 "[]"]
  obtain fa sa fpa g where h:
    "processAngles [] = Inr fa" "processSideAngles [] = Inr sa"
    "processFingerPairAngles_v2 [] = Inr fpa" "gap_v2 [] = Inr g"
    "length ([] :: HandLandmark list) \<le> 8 \<longrightarrow> g = 0"
    "[] = map toHandLandmark [] \<longrightarrow> (0 :: nat) < length [''Left''] \<longrightarrow>
        handCallback_v2 0 [''Left''] [] ([], 0) =
          Inr ([] @ [\<lparr>landmarks = [], fingerAngles = fa, fingerPairAngles = Some fpa,
                          handedness = [''Left''] ! 0, gap = g, timestamp = 0\<rparr>])"
    by (elim exE conjE)
  have "g = 0" using h(5) by simp
  then show ?thesis using h by (intro conjI exI [of _ fa] exI [of _ sa] exI [of _ fpa]) simp_all
qed

text \<open>
  C10. The angle that \<^verbatim>\<open>processAngles\<close> gives a finger depends only on the
  landmarks at the finger's three joint indices: two landmark lists that agree
  at these indices get the same angle for the finger.
\<close>

theorem processAngles_depends_on_joint_triple:
  assumes "(F, a, b, c) \<in> set FINGER_JOINTS"
    and "at_index lm1 a = at_index lm2 a"
    and "at_index lm1 b = at_index lm2 b"
    and "at_index lm1 c = at_index lm2 c"
  shows "\<exists>m1 m2. processAngles lm1 = Inr m1 \<and> processAngles lm2 = Inr m2 \<and> m1 F = m2 F"
proof -
  have eq: "(i < length lm1) = (i < length lm2) \<and> (i < length lm1 \<longrightarrow> lm1 ! i = lm2 ! i)"
    if "at_index lm1 i = at_index lm2 i" for i
    using that by (auto simp: at_index_def split: if_splits)
  have "anglesOf calculateAngle lm1 F = anglesOf calculateAngle lm2 F"
    unfolding anglesOf_at [OF assms(1)]
    using eq [OF assms(2)] eq [OF assms(3)] eq [OF assms(4)] by auto
  then show ?thesis using processAngles_eq by blast
qed

text \<open>Two hands that differ at the wrist and agree at the index finger's joints.\<close>

theorem processAngles_depends_on_joint_triple_witness:
  "(''Index'', 5, 6, 8) \<in> set FINGER_JOINTS \<and>
   at_index zeroTipHand 5 = at_index (zeroTipHand[0 := \<lparr>x = 7, y = 7, z = 7\<rparr>]) 5 \<and>
   at_index zeroTipHand 6 = at_index (zeroTipHand[0 := \<lparr>x = 7, y = 7, z = 7\<rparr>]) 6 \<and>
   at_index zeroTipHand 8 = at_index (zeroTipHand[0 := \<lparr>x = 7, y = 7, z = 7\<rparr>]) 8 \<and>
   (\<exists>m1 m2. processAngles zeroTipHand = Inr m1 \<and>
      processAngles (zeroTipHand[0 := \<lparr>x = 7, y = 7, z = 7\<rparr>]) = Inr m2 \<and>
      m1 ''Index'' = m2 ''Index'')"
proof -
  have 1: "(''Index'', 5, 6, 8) \<in> set FINGER_JOINTS" by (simp add: FINGER_JOINTS_def)
  have 2: "at_index zeroTipHand 5 = at_index (zeroTipHand[0 := \<lparr>x = 7, y = 7, z = 7\<rparr>]) 5"
    by (simp add: at_index_def zeroTipHand_def)
  have 3: "at_index zeroTipHand 6 = at_index (zeroTipHand[0 := \<lparr>x = 7, y = 7, z = 7\<rparr>]) 6"
    by (simp add: at_index_def zeroTipHand_def)
  have 4: "at_index zeroTipHand 8 = at_index (zeroTipHand[0 := \<lparr>x = 7, y = 7, z = 7\<rparr>]) 8"
    by (simp add: at_index_def zeroTipHand_def)
  show ?thesis
    using 1 2 3 4 processAngles_depends_on_joint_triple [OF 1 2 3 4] by (intro conjI)
qed

end
